theory Spec2Isabelle
  imports Main
begin

section \<open>JWT middleware for go-json-rest: a model of \<^verbatim>\<open>auth_jwt.go\<close>\<close>

text \<open>
  The file under verification is one Go source, \<^verbatim>\<open>auth_jwt.go\<close>: the protected-route
  wrapper \<^verbatim>\<open>middlewareImpl\<close>, the handlers \<^verbatim>\<open>LoginHandler\<close> and \<^verbatim>\<open>RefreshHandler\<close>, and
  the helpers \<^verbatim>\<open>parseToken\<close> and \<^verbatim>\<open>unauthorized\<close>. Everything else it touches is imported:
  the token library \<^verbatim>\<open>dgrijalva/jwt-go\<close>, the framework \<^verbatim>\<open>go-json-rest\<close>, and Go's
  \<^verbatim>\<open>time\<close> and \<^verbatim>\<open>strings\<close> packages. The imported token library is a parameter of the
  model (the record \<open>JwtLib\<close> below): a theorem with a free \<open>lib\<close> holds for whatever the
  library does, unless a hypothesis says what it returned. Runs at concrete inputs use the
  small library \<open>tableLib\<close>, defined after the handlers.
\<close>

subsection \<open>Go values\<close>

text \<open>
  A claims map is a \<^verbatim>\<open>map[string]interface{}\<close>. An \<^verbatim>\<open>interface{}\<close> carries its dynamic
  type; the constructors below are the dynamic types that occur: the handlers store
  \<^verbatim>\<open>string\<close> and \<^verbatim>\<open>int64\<close>, a JSON decoder produces \<^verbatim>\<open>string\<close>, \<^verbatim>\<open>float64\<close>, \<^verbatim>\<open>bool\<close> and
  \<^verbatim>\<open>nil\<close>. The code never computes with a \<^verbatim>\<open>float64\<close>, it only tests for the type, so a
  \<open>Float64\<close> here holds a whole number of seconds.
\<close>

datatype iface = Nil | Str string | Int64 int | Float64 int | Bool bool

text \<open>The index expression \<^verbatim>\<open>m[k]\<close>: the zero value \<^verbatim>\<open>nil\<close> for a key that is absent.\<close>

definition mapIndex :: "(string \<rightharpoonup> iface) \<Rightarrow> string \<Rightarrow> iface" where
  "mapIndex m k = (case m k of None \<Rightarrow> Nil | Some v \<Rightarrow> v)"

text \<open>
  The unchecked type assertions \<^verbatim>\<open>x.(string)\<close> and \<^verbatim>\<open>x.(int64)\<close>: \<open>None\<close> is the run-time
  panic of an assertion on another dynamic type (or on \<^verbatim>\<open>nil\<close>).
\<close>

definition assertString :: "iface \<Rightarrow> string option" where
  "assertString x = (case x of Str s \<Rightarrow> Some s | _ \<Rightarrow> None)"

definition assertInt64 :: "iface \<Rightarrow> int option" where
  "assertInt64 x = (case x of Int64 n \<Rightarrow> Some n | _ \<Rightarrow> None)"

text \<open>
  \<^verbatim>\<open>time.Time\<close> as nanoseconds since the Unix epoch and \<^verbatim>\<open>time.Duration\<close> as nanoseconds,
  both unbounded integers: \<^verbatim>\<open>t.Add(d)\<close> is the sum, \<^verbatim>\<open>t.Unix()\<close> the whole seconds (rounded
  down).
\<close>

type_synonym time = int
type_synonym duration = int

definition Second :: duration where
  "Second = 1000000000"

definition Hour :: duration where
  "Hour = 3600 * Second"

definition Add :: "time \<Rightarrow> duration \<Rightarrow> time" where
  "Add t d = t + d"

definition Unix :: "time \<Rightarrow> int" where
  "Unix t = t div Second"

text \<open>
  \<^verbatim>\<open>strings.SplitN(s, " ", 2)\<close>: the text before the first space and the text after it, or
  \<open>s\<close> alone when it has no space.
\<close>

definition SplitN2 :: "string \<Rightarrow> string list" where
  "SplitN2 s =
     (if CHR '' '' \<in> set s
      then [takeWhile (\<lambda>c. c \<noteq> CHR '' '') s, tl (dropWhile (\<lambda>c. c \<noteq> CHR '' '') s)]
      else [s])"

subsection \<open>The types of the handlers\<close>

text \<open>A Go \<^verbatim>\<open>error\<close>: \<open>None\<close> is \<^verbatim>\<open>nil\<close>, \<open>Some msg\<close> an error with that message.\<close>

type_synonym error = "string option"

text \<open>
  \<^verbatim>\<open>jwt.Token\<close>, with \<^verbatim>\<open>Method\<close> named by its algorithm (\<open>None\<close> is a nil method).
\<close>

record Token =
  Method :: "string option"
  Header :: "string \<rightharpoonup> iface"
  Claims :: "string \<rightharpoonup> iface"
  Valid :: bool

record login =
  Username :: string
  Password :: string

text \<open>
  \<^verbatim>\<open>rest.Request\<close>: the HTTP header, the result of \<^verbatim>\<open>DecodeJsonPayload\<close> into a \<^verbatim>\<open>login\<close>
  (\<open>None\<close> when it returns an error), and the environment \<^verbatim>\<open>Env\<close>.
  \<^verbatim>\<open>Header.Get\<close> returns the empty string for a header that is absent.
\<close>

record Request =
  HttpHeader :: "string \<rightharpoonup> string"
  JsonPayload :: "login option"
  Env :: "string \<rightharpoonup> iface"

definition Header_Get :: "(string \<rightharpoonup> string) \<Rightarrow> string \<Rightarrow> string" where
  "Header_Get h k = (case h k of None \<Rightarrow> [] | Some v \<Rightarrow> v)"

text \<open>What a handler wrote to its \<^verbatim>\<open>rest.ResponseWriter\<close>.\<close>

record Response =
  Status :: nat
  Headers :: "(string \<times> string) list"
  Json :: "(string \<times> string) list"

text \<open>
  \<^verbatim>\<open>writer.WriteJson(&map[string]string{...})\<close> on a fresh writer (status 200), and
  \<^verbatim>\<open>rest.Error(writer, msg, code)\<close> after the headers \<open>hs\<close> were set.
\<close>

definition WriteJson :: "(string \<times> string) list \<Rightarrow> Response" where
  "WriteJson body = \<lparr>Status = 200, Headers = [], Json = body\<rparr>"

definition rest_Error :: "(string \<times> string) list \<Rightarrow> string \<Rightarrow> nat \<Rightarrow> Response" where
  "rest_Error hs msg code = \<lparr>Status = code, Headers = hs, Json = [(''Error'', msg)]\<rparr>"

text \<open>
  How a handler ends: it wrote a response, it called the wrapped handler with a request,
  or it panicked (a nil pointer dereference, or a failed type assertion).
\<close>

datatype panic = NilDereference | TypeAssertion

datatype outcome = Written Response | Served Request | Panicked panic

record JWTMiddleware =
  Realm :: string
  SigningAlgorithm :: string
  Key :: string
  Timeout :: duration
  MaxRefresh :: duration
  Authenticator :: "string \<Rightarrow> string \<Rightarrow> bool"
  Authorizator :: "string \<Rightarrow> Request \<Rightarrow> bool"

subsection \<open>The token library, as a parameter\<close>

text \<open>
  The three entry points of \<^verbatim>\<open>jwt-go\<close> the file calls.
  \<^item> \<open>GetSigningMethod alg\<close>: the registered method of that name, or nil.
  \<^item> \<open>SignedString token key\<close>: the wire string and an error.
  \<^item> \<open>Parse now tokenString keyFunc\<close>: a token pointer (possibly nil) and an error; the
    library reads the clock itself, \<open>now\<close> is what it reads.
\<close>

record JwtLib =
  GetSigningMethod :: "string \<Rightarrow> string option"
  SignedString :: "Token \<Rightarrow> string \<Rightarrow> string \<times> error"
  Parse :: "time \<Rightarrow> string \<Rightarrow> (Token \<Rightarrow> string \<times> error) \<Rightarrow> Token option \<times> error"

text \<open>
  \<^verbatim>\<open>jwt.New(method)\<close>: a token with an empty claims map. It calls \<^verbatim>\<open>method.Alg()\<close>, so a nil
  method is a nil dereference (\<open>None\<close>).
\<close>

definition jwt_New :: "string option \<Rightarrow> Token option" where
  "jwt_New method =
     (case method of
        None \<Rightarrow> None
      | Some alg \<Rightarrow>
          Some \<lparr>Method = Some alg,
                Header = [''typ'' \<mapsto> Str ''JWT'', ''alg'' \<mapsto> Str alg],
                Claims = Map.empty,
                Valid = False\<rparr>)"

subsection \<open>The functions of \<^verbatim>\<open>auth_jwt.go\<close>\<close>

definition unauthorized :: "JWTMiddleware \<Rightarrow> Response" where
  "unauthorized mw =
     rest_Error [(''WWW-Authenticate'', ''Basic realm='' @ Realm mw)] ''Not Authorized'' 401"

definition parseToken :: "JwtLib \<Rightarrow> time \<Rightarrow> Request \<Rightarrow> string \<Rightarrow> Token option \<times> error" where
  "parseToken lib now request key =
     (let authHeader = Header_Get (HttpHeader request) ''Authorization'' in
      if authHeader = [] then (None, Some ''Auth header empty'')
      else
        let parts = SplitN2 authHeader in
        if \<not> (length parts = 2 \<and> parts ! 0 = ''Bearer'')
        then (None, Some ''Invalid auth header'')
        else Parse lib now (parts ! 1) (\<lambda>token. (key, None)))"

text \<open>
  \<open>now\<close> is the clock as the library reads it inside \<^verbatim>\<open>jwt.Parse\<close>; the function itself
  reads no clock.
\<close>

definition middlewareImpl :: "JwtLib \<Rightarrow> JWTMiddleware \<Rightarrow> time \<Rightarrow> Request \<Rightarrow> outcome" where
  "middlewareImpl lib mw now request =
     (case parseToken lib now request (Key mw) of
        (token, Some e) \<Rightarrow> Written (unauthorized mw)
      | (None, None) \<Rightarrow> Panicked NilDereference
      | (Some token, None) \<Rightarrow>
          (case assertString (mapIndex (Claims token) ''id'') of
             None \<Rightarrow> Panicked TypeAssertion
           | Some userId \<Rightarrow>
               if \<not> Authorizator mw userId request then Written (unauthorized mw)
               else Served (request\<lparr>Env := (Env request)(''REMOTE_USER'' \<mapsto> Str userId)\<rparr>)))"

text \<open>
  \<open>t1\<close> and \<open>t2\<close> are the two readings of \<^verbatim>\<open>time.Now()\<close>, in the order the handler takes
  them.
\<close>

definition LoginHandler :: "JwtLib \<Rightarrow> JWTMiddleware \<Rightarrow> time \<Rightarrow> time \<Rightarrow> Request \<Rightarrow> outcome" where
  "LoginHandler lib mw t1 t2 request =
     (case JsonPayload request of
        None \<Rightarrow> Written (unauthorized mw)
      | Some login_vals \<Rightarrow>
          if \<not> Authenticator mw (Username login_vals) (Password login_vals)
          then Written (unauthorized mw)
          else
            (case jwt_New (GetSigningMethod lib (SigningAlgorithm mw)) of
               None \<Rightarrow> Panicked NilDereference
             | Some token0 \<Rightarrow>
                 let c1 = (Claims token0)(''id'' \<mapsto> Str (Username login_vals));
                     c2 = c1(''exp'' \<mapsto> Int64 (Unix (Add t1 (Timeout mw))));
                     c3 = (if MaxRefresh mw \<noteq> 0 then c2(''orig_iat'' \<mapsto> Int64 (Unix t2)) else c2);
                     token = token0\<lparr>Claims := c3\<rparr>
                 in (case SignedString lib token (Key mw) of
                       (tokenString, Some e) \<Rightarrow> Written (unauthorized mw)
                     | (tokenString, None) \<Rightarrow> Written (WriteJson [(''token'', tokenString)]))))"

text \<open>
  \<open>t0\<close> is the clock inside \<^verbatim>\<open>jwt.Parse\<close>, \<open>t1\<close> and \<open>t2\<close> the handler's own two readings.
  The error of \<^verbatim>\<open>parseToken\<close> is assigned and never read before the token is used.
\<close>

definition RefreshHandler ::
    "JwtLib \<Rightarrow> JWTMiddleware \<Rightarrow> time \<Rightarrow> time \<Rightarrow> time \<Rightarrow> Request \<Rightarrow> outcome" where
  "RefreshHandler lib mw t0 t1 t2 request =
     (case parseToken lib t0 request (Key mw) of
        (None, err) \<Rightarrow> Panicked NilDereference
      | (Some token, err) \<Rightarrow>
          (case assertInt64 (mapIndex (Claims token) ''orig_iat'') of
             None \<Rightarrow> Panicked TypeAssertion
           | Some origIat \<Rightarrow>
               if origIat < Unix t1 then Written (unauthorized mw)
               else
                 (case jwt_New (GetSigningMethod lib (SigningAlgorithm mw)) of
                    None \<Rightarrow> Panicked NilDereference
                  | Some newToken0 \<Rightarrow>
                      let c1 = (Claims newToken0)(''id'' \<mapsto> mapIndex (Claims token) ''id'');
                          c2 = c1(''exp'' \<mapsto> Int64 (Unix (Add t2 (Timeout mw))));
                          c3 = c2(''orig_iat'' \<mapsto> Int64 origIat);
                          newToken = newToken0\<lparr>Claims := c3\<rparr>
                      in (case SignedString lib newToken (Key mw) of
                            (tokenString, Some e) \<Rightarrow> Written (unauthorized mw)
                          | (tokenString, None) \<Rightarrow>
                              Written (WriteJson [(''token'', tokenString)])))))"

subsection \<open>Refreshing, token by token\<close>

text \<open>
  The request of a client that holds the token string \<open>tokenString\<close>: the header
  \<^verbatim>\<open>Authorization: Bearer\<close> followed by the string, and nothing else.
\<close>

definition bearer :: "string \<Rightarrow> Request" where
  "bearer tokenString =
     \<lparr>HttpHeader = [''Authorization'' \<mapsto> ''Bearer '' @ tokenString],
      JsonPayload = None, Env = Map.empty\<rparr>"


text \<open>
  The token \<^verbatim>\<open>RefreshHandler\<close> builds and signs (its \<^verbatim>\<open>newToken\<close>) when the parser handed it
  \<open>token\<close>: the same steps as in the handler, without the parsing before and the signing
  after. \<open>None\<close> when the handler panics or answers \<^verbatim>\<open>unauthorized\<close> before it gets there.
  Lemma \<open>RefreshHandler_refreshToken\<close> below ties it to the handler.
\<close>

definition refreshToken :: "JwtLib \<Rightarrow> JWTMiddleware \<Rightarrow> time \<Rightarrow> time \<Rightarrow> Token \<Rightarrow> Token option" where
  "refreshToken lib mw t1 t2 token =
     (case assertInt64 (mapIndex (Claims token) ''orig_iat'') of
        None \<Rightarrow> None
      | Some origIat \<Rightarrow>
          if origIat < Unix t1 then None
          else
            (case jwt_New (GetSigningMethod lib (SigningAlgorithm mw)) of
               None \<Rightarrow> None
             | Some newToken0 \<Rightarrow>
                 let c1 = (Claims newToken0)(''id'' \<mapsto> mapIndex (Claims token) ''id'');
                     c2 = c1(''exp'' \<mapsto> Int64 (Unix (Add t2 (Timeout mw))));
                     c3 = c2(''orig_iat'' \<mapsto> Int64 origIat)
                 in Some (newToken0\<lparr>Claims := c3\<rparr>)))"


text \<open>
  A client that refreshes again and again: it sends \<^verbatim>\<open>Authorization: Bearer\<close> with the string
  it holds, and after a successful run it holds the string that run returned. Each triple
  is the clock of one run of \<^verbatim>\<open>RefreshHandler\<close> (inside \<^verbatim>\<open>jwt.Parse\<close>, then the handler's two
  readings). A run is the handler's own steps, \<^verbatim>\<open>parseToken\<close>, the token built from the
  parsed one, \<^verbatim>\<open>SignedString\<close>, with the two tokens kept: the result lists, per run, the
  token \<^verbatim>\<open>parseToken\<close> returned and the token that was signed; \<open>None\<close> when a run issues
  nothing. Lemma \<open>refreshRuns_RefreshHandler\<close> ties a run to the handler.
\<close>

fun refreshRuns ::
    "JwtLib \<Rightarrow> JWTMiddleware \<Rightarrow> (time \<times> time \<times> time) list \<Rightarrow> string \<Rightarrow> (Token \<times> Token) list option" where
  "refreshRuns lib mw [] tokenString = Some []"
| "refreshRuns lib mw ((t0, t1, t2) # ts) tokenString =
     (case parseToken lib t0 (bearer tokenString) (Key mw) of
        (None, err) \<Rightarrow> None
      | (Some token, err) \<Rightarrow>
          (case refreshToken lib mw t1 t2 token of
             None \<Rightarrow> None
           | Some newToken \<Rightarrow>
               (case SignedString lib newToken (Key mw) of
                  (issued, Some e) \<Rightarrow> None
                | (issued, None) \<Rightarrow>
                    (case refreshRuns lib mw ts issued of
                       None \<Rightarrow> None
                     | Some rest \<Rightarrow> Some ((token, newToken) # rest)))))"

subsection \<open>Reading a token's claims\<close>

text \<open>The number an \<^verbatim>\<open>exp\<close> claim holds, whichever numeric dynamic type carries it.\<close>

definition expiresAt :: "Token \<Rightarrow> int option" where
  "expiresAt token =
     (case mapIndex (Claims token) ''exp'' of
        Int64 n \<Rightarrow> Some n
      | Float64 n \<Rightarrow> Some n
      | _ \<Rightarrow> None)"

subsection \<open>Concrete inputs\<close>

text \<open>
  A small library to run the handlers on: \<open>issued\<close> lists the wire strings in circulation,
  each with the token it decodes to and the key that signed it. \<open>tableParseWith\<close> decodes,
  asks \<open>keyFunc\<close> for the key, checks that key against the signing key, and tests the
  expiry with \<open>tooLate\<close>, given the clock's second and the token's \<^verbatim>\<open>exp\<close>: the comparison is
  the library's, so it is an argument. Like a keyed-signature verifier it takes the
  algorithm from the token's own header. \<open>tableLib\<close> is the library that finds a token too
  late once the clock has passed its \<^verbatim>\<open>exp\<close>. These stand for the imported library only
  where a theorem is run at a concrete input.
\<close>

definition tableParseWith ::
    "(int \<Rightarrow> int \<Rightarrow> bool) \<Rightarrow> (string \<rightharpoonup> Token \<times> string) \<Rightarrow>
     time \<Rightarrow> string \<Rightarrow> (Token \<Rightarrow> string \<times> error) \<Rightarrow> Token option \<times> error" where
  "tableParseWith tooLate issued now tokenString keyFunc =
     (case issued tokenString of
        None \<Rightarrow> (None, Some ''token contains an invalid number of segments'')
      | Some (token, signedWith) \<Rightarrow>
          (case keyFunc token of
             (key, Some e) \<Rightarrow> (Some token, Some e)
           | (key, None) \<Rightarrow>
               if key \<noteq> signedWith then (Some token, Some ''signature is invalid'')
               else if (case expiresAt token of None \<Rightarrow> False | Some e \<Rightarrow> tooLate (Unix now) e)
               then (Some token, Some ''token is expired'')
               else (Some (token\<lparr>Valid := True\<rparr>), None)))"

definition tableLibWith :: "(int \<Rightarrow> int \<Rightarrow> bool) \<Rightarrow> (string \<rightharpoonup> Token \<times> string) \<Rightarrow> JwtLib" where
  "tableLibWith tooLate issued =
     \<lparr>GetSigningMethod = (\<lambda>alg. if alg \<in> set [''HS256'', ''HS384'', ''HS512''] then Some alg else None),
      SignedString = (\<lambda>token key. (''signed.'' @ key, None)),
      Parse = tableParseWith tooLate issued\<rparr>"

definition tableParse ::
    "(string \<rightharpoonup> Token \<times> string) \<Rightarrow> time \<Rightarrow> string \<Rightarrow> (Token \<Rightarrow> string \<times> error) \<Rightarrow> Token option \<times> error" where
  "tableParse issued = tableParseWith (\<lambda>now e. e < now) issued"

definition tableLib :: "(string \<rightharpoonup> Token \<times> string) \<Rightarrow> JwtLib" where
  "tableLib issued =
     \<lparr>GetSigningMethod = (\<lambda>alg. if alg \<in> set [''HS256'', ''HS384'', ''HS512''] then Some alg else None),
      SignedString = (\<lambda>token key. (''signed.'' @ key, None)),
      Parse = tableParse issued\<rparr>"

definition mkToken :: "string \<Rightarrow> (string \<rightharpoonup> iface) \<Rightarrow> Token" where
  "mkToken alg claims =
     \<lparr>Method = Some alg, Header = [''typ'' \<mapsto> Str ''JWT'', ''alg'' \<mapsto> Str alg],
      Claims = claims, Valid = False\<rparr>"

definition demoMw :: JWTMiddleware where
  "demoMw =
     \<lparr>Realm = ''jwt'', SigningAlgorithm = ''HS256'', Key = ''secret'',
      Timeout = Hour, MaxRefresh = Hour,
      Authenticator = (\<lambda>userId password. userId = ''alice'' \<and> password = ''correct''),
      Authorizator = (\<lambda>userId request. True)\<rparr>"

section \<open>Helper lemmas\<close>

lemma SplitN2_Bearer_cons:
  "SplitN2 (CHR ''B'' # CHR ''e'' # CHR ''a'' # CHR ''r'' # CHR ''e'' # CHR ''r'' # CHR '' '' # t) = [''Bearer'', t]"
  by (simp add: SplitN2_def)

lemma SplitN2_Bearer_iff:
  "(length (SplitN2 h) = 2 \<and> SplitN2 h ! 0 = ''Bearer'') = (\<exists>t. h = ''Bearer '' @ t)"
proof
  assume a: "length (SplitN2 h) = 2 \<and> SplitN2 h ! 0 = ''Bearer''"
  let ?P = "\<lambda>c. c \<noteq> CHR '' ''"
  from a have sp: "CHR '' '' \<in> set h"
    by (auto simp: SplitN2_def split: if_splits)
  with a have tw: "takeWhile ?P h = ''Bearer''"
    by (simp add: SplitN2_def)
  from sp have ne: "dropWhile ?P h \<noteq> []"
    by (simp add: dropWhile_eq_Nil_conv)
  then have "\<not> ?P (hd (dropWhile ?P h))"
    by (rule hd_dropWhile)
  then have "hd (dropWhile ?P h) = CHR '' ''"
    by simp
  with ne have "dropWhile ?P h = CHR '' '' # tl (dropWhile ?P h)"
    by (cases "dropWhile ?P h") simp_all
  then have "h = takeWhile ?P h @ CHR '' '' # tl (dropWhile ?P h)"
    by (metis takeWhile_dropWhile_id)
  with tw have "h = ''Bearer '' @ tl (dropWhile ?P h)"
    by simp
  then show "\<exists>t. h = ''Bearer '' @ t" ..
next
  assume "\<exists>t. h = ''Bearer '' @ t"
  then show "length (SplitN2 h) = 2 \<and> SplitN2 h ! 0 = ''Bearer''"
    by (auto simp: SplitN2_Bearer_cons)
qed

lemma parseToken_Bearer:
  assumes "Header_Get (HttpHeader request) ''Authorization'' = ''Bearer '' @ t"
  shows "parseToken lib now request key = Parse lib now t (\<lambda>token. (key, None))"
  using assms by (simp add: parseToken_def SplitN2_Bearer_cons)

lemma parseToken_not_Bearer:
  assumes "\<forall>t. Header_Get (HttpHeader request) ''Authorization'' \<noteq> ''Bearer '' @ t"
  shows "parseToken lib now request key =
           (None, Some (if Header_Get (HttpHeader request) ''Authorization'' = []
                        then ''Auth header empty'' else ''Invalid auth header''))"
proof -
  from assms have "\<not> (length (SplitN2 (Header_Get (HttpHeader request) ''Authorization'')) = 2
      \<and> SplitN2 (Header_Get (HttpHeader request) ''Authorization'') ! 0 = ''Bearer'')"
    by (simp only: SplitN2_Bearer_iff) simp
  then show ?thesis
    by (simp add: parseToken_def Let_def)
qed

lemma parseToken_bearer: "parseToken lib now (bearer s) key = Parse lib now s (\<lambda>token. (key, None))"
  by (rule parseToken_Bearer) (simp add: bearer_def Header_Get_def)

lemma Unix_Add_seconds: "Unix (Add t (n * Second)) = Unix t + n"
  by (simp add: Unix_def Add_def Second_def)


lemma refreshToken_claims:
  assumes "refreshToken lib mw t1 t2 token = Some newToken"
  shows "mapIndex (Claims newToken) ''id'' = mapIndex (Claims token) ''id''"
    and "mapIndex (Claims newToken) ''orig_iat'' = mapIndex (Claims token) ''orig_iat''"
    and "Claims newToken ''exp'' = Some (Int64 (Unix (Add t2 (Timeout mw))))"
    and "\<exists>origIat. mapIndex (Claims token) ''orig_iat'' = Int64 origIat \<and> Unix t1 \<le> origIat"
  using assms
  by (auto simp: refreshToken_def jwt_New_def mapIndex_def assertInt64_def Let_def
      split: option.splits if_splits iface.splits)


lemma RefreshHandler_issued:
  assumes "RefreshHandler lib mw t0 t1 t2 request = Written (WriteJson [(''token'', tokenString)])"
  shows "\<exists>token err newToken.
           parseToken lib t0 request (Key mw) = (Some token, err) \<and>
           refreshToken lib mw t1 t2 token = Some newToken \<and>
           SignedString lib newToken (Key mw) = (tokenString, None)"
  using assms
  by (auto simp: RefreshHandler_def refreshToken_def Let_def unauthorized_def rest_Error_def
      WriteJson_def split: prod.splits option.splits if_splits)

lemma RefreshHandler_refreshToken:
  assumes "parseToken lib t0 request (Key mw) = (Some token, err)"
    and "refreshToken lib mw t1 t2 token = Some newToken"
  shows "RefreshHandler lib mw t0 t1 t2 request =
           (case SignedString lib newToken (Key mw) of
              (tokenString, Some e) \<Rightarrow> Written (unauthorized mw)
            | (tokenString, None) \<Rightarrow> Written (WriteJson [(''token'', tokenString)]))"
  using assms
  by (auto simp: RefreshHandler_def refreshToken_def Let_def
      split: prod.splits option.splits if_splits)

lemma gate_error_unauthorized:
  "parseToken lib now request (Key mw) = (token, Some e) \<Longrightarrow>
     middlewareImpl lib mw now request = Written (unauthorized mw)"
  by (simp add: middlewareImpl_def split: option.splits)

lemma unauthorized_not_WriteJson: "unauthorized mw \<noteq> WriteJson body"
  by (simp add: unauthorized_def rest_Error_def WriteJson_def)

lemma gate_responses:
  "middlewareImpl lib mw now request = Written r \<Longrightarrow> r = unauthorized mw"
  by (auto simp: middlewareImpl_def split: prod.splits option.splits if_splits)

lemma login_responses:
  "LoginHandler lib mw t1 t2 request = Written r \<Longrightarrow>
     r = unauthorized mw \<or> (\<exists>tokenString. r = WriteJson [(''token'', tokenString)])"
  by (auto simp: LoginHandler_def Let_def split: prod.splits option.splits if_splits)

lemma refresh_responses:
  "RefreshHandler lib mw t0 t1 t2 request = Written r \<Longrightarrow>
     r = unauthorized mw \<or> (\<exists>tokenString. r = WriteJson [(''token'', tokenString)])"
  by (auto simp: RefreshHandler_def Let_def split: prod.splits option.splits if_splits)




lemma refreshRuns_RefreshHandler:
  assumes "refreshRuns lib mw ((t0, t1, t2) # ts) tokenString = Some ((token, newToken) # rest)"
  shows "\<exists>err issued.
           parseToken lib t0 (bearer tokenString) (Key mw) = (Some token, err) \<and>
           refreshToken lib mw t1 t2 token = Some newToken \<and>
           SignedString lib newToken (Key mw) = (issued, None) \<and>
           RefreshHandler lib mw t0 t1 t2 (bearer tokenString) = Written (WriteJson [(''token'', issued)]) \<and>
           refreshRuns lib mw ts issued = Some rest"
proof -
  from assms obtain err issued where
    p: "parseToken lib t0 (bearer tokenString) (Key mw) = (Some token, err)" and
    r: "refreshToken lib mw t1 t2 token = Some newToken" and
    s: "SignedString lib newToken (Key mw) = (issued, None)" and
    c: "refreshRuns lib mw ts issued = Some rest"
    by (auto split: prod.splits option.splits)
  from RefreshHandler_refreshToken[OF p r] s
  have "RefreshHandler lib mw t0 t1 t2 (bearer tokenString) = Written (WriteJson [(''token'', issued)])"
    by simp
  with p r s c show ?thesis by blast
qed




lemmas run_defs =
  middlewareImpl_def LoginHandler_def RefreshHandler_def refreshToken_def unauthorized_def
  rest_Error_def WriteJson_def jwt_New_def tableLib_def tableParse_def tableLibWith_def tableParseWith_def
  mkToken_def
  demoMw_def expiresAt_def mapIndex_def assertString_def assertInt64_def
  Unix_def Add_def Second_def Hour_def Let_def

section \<open>The refresh flow\<close>

text \<open>
  What the handler asks of \<^verbatim>\<open>orig_iat\<close>, for any library: a refresh that issues a token was
  presented a token whose \<^verbatim>\<open>orig_iat\<close> is an \<^verbatim>\<open>int64\<close> not before the clock's current
  second. \<^verbatim>\<open>MaxRefresh\<close> does not occur.
\<close>

lemma refresh_success_needs_orig_iat:
  assumes "RefreshHandler lib mw t0 t1 t2 request = Written (WriteJson [(''token'', tokenString)])"
  shows "\<exists>token err origIat.
           parseToken lib t0 request (Key mw) = (Some token, err) \<and>
           mapIndex (Claims token) ''orig_iat'' = Int64 origIat \<and> Unix t1 \<le> origIat"
  using RefreshHandler_issued[OF assms] refreshToken_claims(4) by blast

text \<open>
  C1 (the code departs from the claim). The claim: a refresh succeeds if and only if
  \<open>originalIssuedAt + maxRefreshWindow > now\<close>. \<^verbatim>\<open>RefreshHandler\<close> compares \<^verbatim>\<open>orig_iat\<close> with
  the clock alone and never reads \<^verbatim>\<open>MaxRefresh\<close>. A token first issued at second 1000 and
  presented at second 1001 under a refresh window of one hour is inside the window; the
  handler answers \<^verbatim>\<open>unauthorized\<close> when \<^verbatim>\<open>orig_iat\<close> is an \<^verbatim>\<open>int64\<close>, and panics when it is a
  \<^verbatim>\<open>float64\<close>, as a JSON decoder leaves it. No token is issued either way.
\<close>

theorem refresh_rejected_inside_window:
  "Unix (1001 * Second) < 1000 + MaxRefresh demoMw div Second \<and>
   RefreshHandler
     (tableLib [''tok'' \<mapsto> (mkToken ''HS256''
        [''id'' \<mapsto> Str ''alice'', ''exp'' \<mapsto> Int64 4600, ''orig_iat'' \<mapsto> Int64 1000], ''secret'')])
     demoMw (1001 * Second) (1001 * Second) (1001 * Second) (bearer ''tok'')
   = Written (unauthorized demoMw) \<and>
   RefreshHandler
     (tableLib [''tok'' \<mapsto> (mkToken ''HS256''
        [''id'' \<mapsto> Str ''alice'', ''exp'' \<mapsto> Float64 4600, ''orig_iat'' \<mapsto> Float64 1000], ''secret'')])
     demoMw (1001 * Second) (1001 * Second) (1001 * Second) (bearer ''tok'')
   = Panicked TypeAssertion"
  by (simp add: parseToken_bearer RefreshHandler_def) (simp add: run_defs)

text \<open>
  C2 (the code departs from the claim). The claim: a refresh request whose token fails to
  parse or verify is answered \<^verbatim>\<open>unauthorized\<close>. \<^verbatim>\<open>RefreshHandler\<close> never reads the error of
  \<^verbatim>\<open>parseToken\<close>: with no \<^verbatim>\<open>Authorization\<close> header the token pointer is nil and reading its
  claims panics, whatever the library, the configuration and the clock are.
\<close>

theorem refresh_without_header_panics:
  "RefreshHandler lib mw t0 t1 t2 (request\<lparr>HttpHeader := Map.empty\<rparr>) = Panicked NilDereference"
  by (simp add: RefreshHandler_def parseToken_def Header_Get_def)

text \<open>
  C4. In \<^verbatim>\<open>RefreshHandler\<close> the claim \<^verbatim>\<open>orig_iat\<close> is read with the unchecked assertion
  \<^verbatim>\<open>.(int64)\<close>. Whenever \<^verbatim>\<open>parseToken\<close> hands back a token whose \<^verbatim>\<open>orig_iat\<close> is a \<^verbatim>\<open>float64\<close>
  (what decoding JSON produces for a number) or is absent, the handler panics on the
  assertion; it does not answer \<^verbatim>\<open>unauthorized\<close>.
\<close>

theorem refresh_orig_iat_assertion_panics:
  assumes "parseToken lib t0 request (Key mw) = (Some token, err)"
    and "(\<exists>f. Claims token ''orig_iat'' = Some (Float64 f)) \<or> Claims token ''orig_iat'' = None"
  shows "RefreshHandler lib mw t0 t1 t2 request = Panicked TypeAssertion"
  using assms by (auto simp: RefreshHandler_def mapIndex_def assertInt64_def)

text \<open>
  C4 at concrete inputs: a correctly signed token whose \<^verbatim>\<open>orig_iat\<close> is the \<^verbatim>\<open>float64\<close> 1000,
  and one with no \<^verbatim>\<open>orig_iat\<close>.
\<close>

theorem refresh_orig_iat_assertion_panics_witness:
  "RefreshHandler
     (tableLib [''tok'' \<mapsto> (mkToken ''HS256''
        [''id'' \<mapsto> Str ''alice'', ''exp'' \<mapsto> Float64 4600, ''orig_iat'' \<mapsto> Float64 1000], ''secret'')])
     demoMw (1000 * Second) (1000 * Second) (1000 * Second) (bearer ''tok'')
   = Panicked TypeAssertion \<and>
   RefreshHandler
     (tableLib [''tok'' \<mapsto> (mkToken ''HS256''
        [''id'' \<mapsto> Str ''alice'', ''exp'' \<mapsto> Float64 4600], ''secret'')])
     demoMw (1000 * Second) (1000 * Second) (1000 * Second) (bearer ''tok'')
   = Panicked TypeAssertion"
proof -
  let ?c1 = "[''id'' \<mapsto> Str ''alice'', ''exp'' \<mapsto> Float64 4600, ''orig_iat'' \<mapsto> Float64 1000]"
  let ?c2 = "[''id'' \<mapsto> Str ''alice'', ''exp'' \<mapsto> Float64 4600]"
  let ?L1 = "tableLib [''tok'' \<mapsto> (mkToken ''HS256'' ?c1, ''secret'')]"
  let ?L2 = "tableLib [''tok'' \<mapsto> (mkToken ''HS256'' ?c2, ''secret'')]"
  have p1: "parseToken ?L1 (1000 * Second) (bearer ''tok'') (Key demoMw)
              = (Some ((mkToken ''HS256'' ?c1)\<lparr>Valid := True\<rparr>), None)"
    by (simp add: parseToken_bearer) (simp add: run_defs)
  have p2: "parseToken ?L2 (1000 * Second) (bearer ''tok'') (Key demoMw)
              = (Some ((mkToken ''HS256'' ?c2)\<lparr>Valid := True\<rparr>), None)"
    by (simp add: parseToken_bearer) (simp add: run_defs)
  have f1: "(\<exists>f. Claims ((mkToken ''HS256'' ?c1)\<lparr>Valid := True\<rparr>) ''orig_iat'' = Some (Float64 f))
              \<or> Claims ((mkToken ''HS256'' ?c1)\<lparr>Valid := True\<rparr>) ''orig_iat'' = None"
    by (simp add: mkToken_def)
  have f2: "(\<exists>f. Claims ((mkToken ''HS256'' ?c2)\<lparr>Valid := True\<rparr>) ''orig_iat'' = Some (Float64 f))
              \<or> Claims ((mkToken ''HS256'' ?c2)\<lparr>Valid := True\<rparr>) ''orig_iat'' = None"
    by (simp add: mkToken_def)
  from refresh_orig_iat_assertion_panics[OF p1 f1] refresh_orig_iat_assertion_panics[OF p2 f2]
  show ?thesis by blast
qed




section \<open>The verification gate\<close>

text \<open>
  C3, as stated: a token whose header names another algorithm than the configured
  \<^verbatim>\<open>SigningAlgorithm\<close> fails verification. It does not hold: \<^verbatim>\<open>parseToken\<close> is given the
  request and the key only, and its key function returns the key without looking at the
  token. Here the configuration says HS256, the token's header says HS512, the key is the
  configured one, and the gate calls the wrapped handler.
\<close>

theorem gate_accepts_other_algorithm:
  "SigningAlgorithm demoMw = ''HS256'' \<and>
   Header (mkToken ''HS512'' [''id'' \<mapsto> Str ''alice'', ''exp'' \<mapsto> Float64 4600]) ''alg'' = Some (Str ''HS512'') \<and>
   snd (parseToken
     (tableLib [''tok'' \<mapsto> (mkToken ''HS512'' [''id'' \<mapsto> Str ''alice'', ''exp'' \<mapsto> Float64 4600], ''secret'')])
     (1000 * Second) (bearer ''tok'') (Key demoMw)) = None \<and>
   middlewareImpl
     (tableLib [''tok'' \<mapsto> (mkToken ''HS512'' [''id'' \<mapsto> Str ''alice'', ''exp'' \<mapsto> Float64 4600], ''secret'')])
     demoMw (1000 * Second) (bearer ''tok'')
   = Served ((bearer ''tok'')\<lparr>Env := [''REMOTE_USER'' \<mapsto> Str ''alice'']\<rparr>)"
  by (simp add: parseToken_bearer middlewareImpl_def) (simp add: run_defs bearer_def)

text \<open>
  C3, amended: verification does not depend on the configured \<^verbatim>\<open>SigningAlgorithm\<close>. For any
  library, request and clock, \<^verbatim>\<open>parseToken\<close> returns the same token and error, and the gate
  ends the same way, whatever algorithm the configuration names.
\<close>

theorem gate_ignores_SigningAlgorithm:
  "parseToken lib now request (Key (mw\<lparr>SigningAlgorithm := alg\<rparr>)) = parseToken lib now request (Key mw) \<and>
   middlewareImpl lib (mw\<lparr>SigningAlgorithm := alg\<rparr>) now request = middlewareImpl lib mw now request"
  by (simp add: middlewareImpl_def unauthorized_def split: prod.splits option.splits)


text \<open>
  The same gate, the same request and the same clock, with a library that finds the token
  too late from second \<^verbatim>\<open>exp\<close> on: the answer is \<^verbatim>\<open>unauthorized\<close>.
\<close>

lemma gate_rejects_token_at_expiry:
  "middlewareImpl
     (tableLibWith (\<lambda>now e. e \<le> now)
        [''tok'' \<mapsto> (mkToken ''HS256'' [''id'' \<mapsto> Str ''alice'', ''exp'' \<mapsto> Float64 1000], ''secret'')])
     demoMw (1000 * Second) (bearer ''tok'')
   = Written (unauthorized demoMw)"
  by (simp add: parseToken_bearer middlewareImpl_def) (simp add: run_defs)



text \<open>
  C8. The credential is taken from the \<^verbatim>\<open>Authorization\<close> header exactly when the header is
  the word \<^verbatim>\<open>Bearer\<close>, one space, and the token: then the text after that space goes to the
  library. For any other header, an absent one included, \<^verbatim>\<open>parseToken\<close> returns no token and
  an error without calling the library, and the gate answers \<^verbatim>\<open>unauthorized\<close>.
\<close>

theorem bearer_header_form:
  "(Header_Get (HttpHeader request) ''Authorization'' = ''Bearer '' @ t \<longrightarrow>
      parseToken lib now request key = Parse lib now t (\<lambda>token. (key, None))) \<and>
   ((\<forall>t. Header_Get (HttpHeader request) ''Authorization'' \<noteq> ''Bearer '' @ t) \<longrightarrow>
      (\<exists>e. parseToken lib now request key = (None, Some e)) \<and>
      middlewareImpl lib mw now request = Written (unauthorized mw))"
proof (intro conjI impI)
  assume "Header_Get (HttpHeader request) ''Authorization'' = ''Bearer '' @ t"
  then show "parseToken lib now request key = Parse lib now t (\<lambda>token. (key, None))"
    by (rule parseToken_Bearer)
next
  assume "\<forall>t. Header_Get (HttpHeader request) ''Authorization'' \<noteq> ''Bearer '' @ t"
  then show "\<exists>e. parseToken lib now request key = (None, Some e)"
    by (simp add: parseToken_not_Bearer)
next
  assume "\<forall>t. Header_Get (HttpHeader request) ''Authorization'' \<noteq> ''Bearer '' @ t"
  then have "\<exists>e. parseToken lib now request (Key mw) = (None, Some e)"
    by (simp add: parseToken_not_Bearer)
  then show "middlewareImpl lib mw now request = Written (unauthorized mw)"
    by (auto simp: gate_error_unauthorized)
qed

text \<open>
  C8 at concrete inputs: a well-formed header, a lower-case scheme, the scheme alone, and no
  header.
\<close>

theorem bearer_header_form_witness:
  "parseToken (tableLib Map.empty) (1000 * Second) (bearer ''a.b.c'') ''secret''
     = Parse (tableLib Map.empty) (1000 * Second) ''a.b.c'' (\<lambda>token. (''secret'', None)) \<and>
   parseToken (tableLib Map.empty) (1000 * Second)
     \<lparr>HttpHeader = [''Authorization'' \<mapsto> ''bearer a.b.c''], JsonPayload = None, Env = Map.empty\<rparr> ''secret''
     = (None, Some ''Invalid auth header'') \<and>
   middlewareImpl (tableLib Map.empty) demoMw (1000 * Second)
     \<lparr>HttpHeader = [''Authorization'' \<mapsto> ''bearer a.b.c''], JsonPayload = None, Env = Map.empty\<rparr>
     = Written (unauthorized demoMw) \<and>
   middlewareImpl (tableLib Map.empty) demoMw (1000 * Second)
     \<lparr>HttpHeader = [''Authorization'' \<mapsto> ''Bearer''], JsonPayload = None, Env = Map.empty\<rparr>
     = Written (unauthorized demoMw) \<and>
   middlewareImpl (tableLib Map.empty) demoMw (1000 * Second)
     \<lparr>HttpHeader = Map.empty, JsonPayload = None, Env = Map.empty\<rparr>
     = Written (unauthorized demoMw)"
proof -
  let ?L = "tableLib Map.empty"
  let ?lower = "\<lparr>HttpHeader = [''Authorization'' \<mapsto> ''bearer a.b.c''], JsonPayload = None, Env = Map.empty\<rparr>"
  let ?bare = "\<lparr>HttpHeader = [''Authorization'' \<mapsto> ''Bearer''], JsonPayload = None, Env = Map.empty\<rparr>"
  let ?none = "\<lparr>HttpHeader = Map.empty, JsonPayload = None, Env = Map.empty\<rparr> :: Request"
  have h: "Header_Get (HttpHeader (bearer ''a.b.c'')) ''Authorization'' = ''Bearer '' @ ''a.b.c''"
    by (simp add: bearer_def Header_Get_def)
  have n1: "\<forall>t. Header_Get (HttpHeader ?lower) ''Authorization'' \<noteq> ''Bearer '' @ t"
    by (simp add: Header_Get_def)
  have n2: "\<forall>t. Header_Get (HttpHeader ?bare) ''Authorization'' \<noteq> ''Bearer '' @ t"
    by (simp add: Header_Get_def)
  have n3: "\<forall>t. Header_Get (HttpHeader ?none) ''Authorization'' \<noteq> ''Bearer '' @ t"
    by (simp add: Header_Get_def)
  have e: "parseToken ?L (1000 * Second) ?lower ''secret'' = (None, Some ''Invalid auth header'')"
    using n1 by (simp add: parseToken_not_Bearer) (simp add: Header_Get_def)
  note a = mp[OF conjunct1[OF bearer_header_form[of "bearer ''a.b.c''" "''a.b.c''" ?L "1000 * Second" "''secret''" demoMw]] h]
  note b = mp[OF conjunct2[OF bearer_header_form[of ?lower "''x''" ?L "1000 * Second" "''secret''" demoMw]] n1]
  note c = mp[OF conjunct2[OF bearer_header_form[of ?bare "''x''" ?L "1000 * Second" "''secret''" demoMw]] n2]
  note d = mp[OF conjunct2[OF bearer_header_form[of ?none "''x''" ?L "1000 * Second" "''secret''" demoMw]] n3]
  from a e conjunct2[OF b] conjunct2[OF c] conjunct2[OF d]
  show ?thesis by - (intro conjI, assumption+)
qed

text \<open>
  C10. In the gate the subject is read with the unchecked assertion \<^verbatim>\<open>.(string)\<close>. When
  \<^verbatim>\<open>parseToken\<close> returns a token and no error, and the token's \<^verbatim>\<open>id\<close> is absent or not a
  string, the gate panics on the assertion; it does not answer \<^verbatim>\<open>unauthorized\<close>.
\<close>

theorem gate_id_assertion_panics:
  assumes "parseToken lib now request (Key mw) = (Some token, None)"
    and "\<forall>s. Claims token ''id'' \<noteq> Some (Str s)"
  shows "middlewareImpl lib mw now request = Panicked TypeAssertion"
  using assms
  by (auto simp: middlewareImpl_def mapIndex_def assertString_def split: option.splits iface.splits)

text \<open>
  C10 at concrete inputs: correctly signed, unexpired tokens, one without \<^verbatim>\<open>id\<close> and one
  whose \<^verbatim>\<open>id\<close> is a number.
\<close>

theorem gate_id_assertion_panics_witness:
  "middlewareImpl
     (tableLib [''tok'' \<mapsto> (mkToken ''HS256'' [''exp'' \<mapsto> Float64 4600], ''secret'')])
     demoMw (1000 * Second) (bearer ''tok'')
   = Panicked TypeAssertion \<and>
   middlewareImpl
     (tableLib [''tok'' \<mapsto> (mkToken ''HS256'' [''id'' \<mapsto> Float64 7, ''exp'' \<mapsto> Float64 4600], ''secret'')])
     demoMw (1000 * Second) (bearer ''tok'')
   = Panicked TypeAssertion"
proof -
  let ?c1 = "[''exp'' \<mapsto> Float64 4600]"
  let ?c2 = "[''id'' \<mapsto> Float64 7, ''exp'' \<mapsto> Float64 4600]"
  let ?L1 = "tableLib [''tok'' \<mapsto> (mkToken ''HS256'' ?c1, ''secret'')]"
  let ?L2 = "tableLib [''tok'' \<mapsto> (mkToken ''HS256'' ?c2, ''secret'')]"
  have p1: "parseToken ?L1 (1000 * Second) (bearer ''tok'') (Key demoMw)
              = (Some ((mkToken ''HS256'' ?c1)\<lparr>Valid := True\<rparr>), None)"
    by (simp add: parseToken_bearer) (simp add: run_defs)
  have p2: "parseToken ?L2 (1000 * Second) (bearer ''tok'') (Key demoMw)
              = (Some ((mkToken ''HS256'' ?c2)\<lparr>Valid := True\<rparr>), None)"
    by (simp add: parseToken_bearer) (simp add: run_defs)
  have f1: "\<forall>s. Claims ((mkToken ''HS256'' ?c1)\<lparr>Valid := True\<rparr>) ''id'' \<noteq> Some (Str s)"
    by (simp add: mkToken_def)
  have f2: "\<forall>s. Claims ((mkToken ''HS256'' ?c2)\<lparr>Valid := True\<rparr>) ''id'' \<noteq> Some (Str s)"
    by (simp add: mkToken_def)
  from gate_id_assertion_panics[OF p1 f1] gate_id_assertion_panics[OF p2 f2]
  show ?thesis by blast
qed

section \<open>The login flow\<close>

text \<open>
  C6. When the payload decodes, the authenticator accepts the pair, the configured algorithm
  is registered and signing does not fail, \<^verbatim>\<open>LoginHandler\<close> answers the single field
  \<^verbatim>\<open>token\<close>, holding the signature of a token whose claims are \<^verbatim>\<open>id\<close> = the user name,
  \<^verbatim>\<open>exp\<close> = the first clock reading plus \<^verbatim>\<open>Timeout\<close>, in Unix seconds, and \<^verbatim>\<open>orig_iat\<close> = the
  second clock reading in Unix seconds when \<^verbatim>\<open>MaxRefresh\<close> is not zero, absent when it is
  zero. (By \<open>Unix_Add_seconds\<close>, a \<^verbatim>\<open>Timeout\<close> of \<open>n\<close> whole seconds gives \<^verbatim>\<open>exp\<close> = issue
  second + \<open>n\<close>.)
\<close>

theorem login_issues_token:
  assumes "JsonPayload request = Some login_vals"
    and "Authenticator mw (Username login_vals) (Password login_vals)"
    and "GetSigningMethod lib (SigningAlgorithm mw) = Some alg"
    and "\<And>token. snd (SignedString lib token (Key mw)) = None"
  shows "\<exists>token tokenString.
           LoginHandler lib mw t1 t2 request = Written (WriteJson [(''token'', tokenString)]) \<and>
           SignedString lib token (Key mw) = (tokenString, None) \<and>
           Claims token ''id'' = Some (Str (Username login_vals)) \<and>
           Claims token ''exp'' = Some (Int64 (Unix (Add t1 (Timeout mw)))) \<and>
           Claims token ''orig_iat'' = (if MaxRefresh mw \<noteq> 0 then Some (Int64 (Unix t2)) else None)"
proof -
  define token0 where "token0 = \<lparr>Method = Some alg,
      Header = [''typ'' \<mapsto> Str ''JWT'', ''alg'' \<mapsto> Str alg], Claims = Map.empty, Valid = False\<rparr>"
  define c2 where "c2 = [''id'' \<mapsto> Str (Username login_vals),
      ''exp'' \<mapsto> Int64 (Unix (Add t1 (Timeout mw)))]"
  define token where "token = token0\<lparr>Claims :=
      (if MaxRefresh mw \<noteq> 0 then c2(''orig_iat'' \<mapsto> Int64 (Unix t2)) else c2)\<rparr>"
  obtain tokenString where s: "SignedString lib token (Key mw) = (tokenString, None)"
    using assms(4)[of token] by (cases "SignedString lib token (Key mw)") simp
  have "LoginHandler lib mw t1 t2 request = Written (WriteJson [(''token'', tokenString)])"
    using assms(1-3) s
    by (cases "MaxRefresh mw = 0")
       (simp_all add: LoginHandler_def jwt_New_def Let_def token_def token0_def c2_def)
  moreover have "Claims token ''id'' = Some (Str (Username login_vals))"
    by (simp add: token_def c2_def)
  moreover have "Claims token ''exp'' = Some (Int64 (Unix (Add t1 (Timeout mw))))"
    by (simp add: token_def c2_def)
  moreover have "Claims token ''orig_iat'' = (if MaxRefresh mw \<noteq> 0 then Some (Int64 (Unix t2)) else None)"
    by (simp add: token_def c2_def token0_def)
  ultimately show ?thesis using s by blast
qed

text \<open>
  C6 at concrete inputs: a login at second 1000 with a lifetime of one hour, with refresh
  enabled and with \<^verbatim>\<open>MaxRefresh\<close> zero.
\<close>

theorem login_issues_token_witness:
  "Authenticator demoMw ''alice'' ''correct'' \<and>
   (\<exists>token tokenString.
      LoginHandler (tableLib Map.empty) demoMw (1000 * Second) (1000 * Second)
        \<lparr>HttpHeader = Map.empty, JsonPayload = Some \<lparr>Username = ''alice'', Password = ''correct''\<rparr>,
         Env = Map.empty\<rparr>
        = Written (WriteJson [(''token'', tokenString)]) \<and>
      SignedString (tableLib Map.empty) token (Key demoMw) = (tokenString, None) \<and>
      Claims token ''id'' = Some (Str ''alice'') \<and>
      Claims token ''exp'' = Some (Int64 4600) \<and>
      Claims token ''orig_iat'' = Some (Int64 1000)) \<and>
   (\<exists>token tokenString.
      LoginHandler (tableLib Map.empty) (demoMw\<lparr>MaxRefresh := 0\<rparr>) (1000 * Second) (1000 * Second)
        \<lparr>HttpHeader = Map.empty, JsonPayload = Some \<lparr>Username = ''alice'', Password = ''correct''\<rparr>,
         Env = Map.empty\<rparr>
        = Written (WriteJson [(''token'', tokenString)]) \<and>
      SignedString (tableLib Map.empty) token (Key demoMw) = (tokenString, None) \<and>
      Claims token ''id'' = Some (Str ''alice'') \<and>
      Claims token ''exp'' = Some (Int64 4600) \<and>
      Claims token ''orig_iat'' = None)"
proof -
  let ?L = "tableLib Map.empty"
  let ?r = "\<lparr>HttpHeader = Map.empty, JsonPayload = Some \<lparr>Username = ''alice'', Password = ''correct''\<rparr>,
         Env = Map.empty\<rparr>"
  let ?l = "\<lparr>Username = ''alice'', Password = ''correct''\<rparr>"
  have a: "Authenticator demoMw ''alice'' ''correct''"
    by (simp add: demoMw_def)
  have g: "GetSigningMethod ?L (SigningAlgorithm demoMw) = Some ''HS256''"
    by (simp add: tableLib_def demoMw_def)
  have s: "snd (SignedString ?L token (Key demoMw)) = None" for token
    by (simp add: tableLib_def)
  have p: "JsonPayload ?r = Some ?l"
    by simp
  have a0: "Authenticator (demoMw\<lparr>MaxRefresh := 0\<rparr>) (Username ?l) (Password ?l)"
    by (simp add: demoMw_def)
  have g0: "GetSigningMethod ?L (SigningAlgorithm (demoMw\<lparr>MaxRefresh := 0\<rparr>)) = Some ''HS256''"
    by (simp add: tableLib_def demoMw_def)
  have s0: "snd (SignedString ?L token (Key (demoMw\<lparr>MaxRefresh := 0\<rparr>))) = None" for token
    by (simp add: tableLib_def)
  have a1: "Authenticator demoMw (Username ?l) (Password ?l)"
    by (simp add: demoMw_def)
  have x1: "Unix (Add (1000 * Second) (Timeout demoMw)) = 4600" "Unix (1000 * Second) = 1000"
    "MaxRefresh demoMw \<noteq> 0" "Key (demoMw\<lparr>MaxRefresh := 0\<rparr>) = Key demoMw"
    "Timeout (demoMw\<lparr>MaxRefresh := 0\<rparr>) = Timeout demoMw"
    by (simp_all add: demoMw_def Unix_def Add_def Second_def Hour_def)
  from login_issues_token[of ?r ?l demoMw ?L "''HS256''" "1000 * Second" "1000 * Second", OF p a1 g s]
       login_issues_token[of ?r ?l "demoMw\<lparr>MaxRefresh := 0\<rparr>" ?L "''HS256''" "1000 * Second" "1000 * Second",
           OF p a0 g0 s0]
       a x1
  show ?thesis by simp
qed

section \<open>The failure response\<close>

text \<open>
  C9 (the code departs from the claim). The claim: every failure branch of the gate, the
  login flow and the refresh flow produces the one \<^verbatim>\<open>unauthorized\<close> response. Every response
  the three functions write other than the token is that response (\<open>gate_responses\<close>,
  \<open>login_responses\<close>, \<open>refresh_responses\<close>), but the refresh flow does not write one when the
  token cannot be read: for a malformed header the gate answers \<^verbatim>\<open>unauthorized\<close> and
  \<^verbatim>\<open>RefreshHandler\<close>, on the same request, panics.
\<close>

theorem refresh_malformed_header_panics:
  "middlewareImpl lib mw t0
     (request\<lparr>HttpHeader := [''Authorization'' \<mapsto> ''Basic YWxpY2U6Y29ycmVjdA=='']\<rparr>)
     = Written (unauthorized mw) \<and>
   RefreshHandler lib mw t0 t1 t2
     (request\<lparr>HttpHeader := [''Authorization'' \<mapsto> ''Basic YWxpY2U6Y29ycmVjdA=='']\<rparr>)
     = Panicked NilDereference"
proof -
  let ?r = "request\<lparr>HttpHeader := [''Authorization'' \<mapsto> ''Basic YWxpY2U6Y29ycmVjdA=='']\<rparr>"
  have n: "\<forall>t. Header_Get (HttpHeader ?r) ''Authorization'' \<noteq> ''Bearer '' @ t"
    by (simp add: Header_Get_def)
  have p: "parseToken lib t0 ?r (Key mw) = (None, Some ''Invalid auth header'')"
    using n by (simp add: parseToken_not_Bearer) (simp add: Header_Get_def)
  show ?thesis
    by (simp add: gate_error_unauthorized[OF p] RefreshHandler_def p)
qed

end
